theory Spec2Isabelle
  imports Main "HOL-Library.AList"
begin

section \<open>Values exchanged with the remote store\<close>

text \<open>
  \<open>qase_copy_results_v4.py\<close> works on the Python values that \<open>r.json()\<close> returns:
  \<open>None\<close>, booleans, integers, strings, lists and dictionaries with string keys.
  A dictionary is an association list in insertion order whose lookup takes the first
  binding of a key. JSON numbers are integers here (identifiers, run numbers and status
  codes); floating point numbers are outside the model. Text is a list of characters
  whose codes 0 to 255 are read as the Unicode code points of that range (Latin-1):
  \<open>lower()\<close>, \<open>strip()\<close> and \<open>repr()\<close> are Python's on these code points, and code
  points above 255 are not in the type.
\<close>

datatype json =
    JNull
  | JBool bool
  | JInt int
  | JStr string
  | JList "json list"
  | JDict "(string \<times> json) list"

datatype error =
    RuntimeError string
  | RequestException
  | JSONDecodeError
  | AttributeError
  | TypeError
  | KeyError

subsection \<open>\<open>str()\<close>, \<open>repr()\<close>, \<open>lower()\<close>, \<open>strip()\<close>\<close>

definition digit_char :: "nat \<Rightarrow> char" where
  "digit_char d = ''0123456789'' ! d"

fun str_nat :: "nat \<Rightarrow> string" where
  "str_nat n = (if n < 10 then [digit_char n] else str_nat (n div 10) @ [digit_char (n mod 10)])"

declare str_nat.simps [simp del]

definition str_int :: "int \<Rightarrow> string" where
  "str_int i = (if i < 0 then CHR ''-'' # str_nat (nat (- i)) else str_nat (nat i))"

definition hex_char :: "nat \<Rightarrow> char" where
  "hex_char d = ''0123456789abcdef'' ! d"

text \<open>
  \<open>repr()\<close> of a string escapes the quote, the backslash and the code points that are
  not printable: those below 32, 127 to 160, and 173.
\<close>

definition repr_char :: "char \<Rightarrow> char \<Rightarrow> string" where
  "repr_char q c =
     (let n = (of_char c :: nat) in
      if c = q \<or> c = CHR 0x5C then [CHR 0x5C, c]
      else if c = CHR 0x09 then [CHR 0x5C, CHR ''t'']
      else if c = CHR 0x0A then [CHR 0x5C, CHR ''n'']
      else if c = CHR 0x0D then [CHR 0x5C, CHR ''r'']
      else if n < 32 \<or> (127 \<le> n \<and> n \<le> 160) \<or> n = 173
      then [CHR 0x5C, CHR ''x'', hex_char (n div 16), hex_char (n mod 16)]
      else [c])"

definition repr_str :: "string \<Rightarrow> string" where
  "repr_str s =
     (let q = (if CHR 0x27 \<in> set s \<and> CHR 0x22 \<notin> set s then CHR 0x22 else CHR 0x27)
      in q # concat (map (repr_char q) s) @ [q])"

fun join :: "string \<Rightarrow> string list \<Rightarrow> string" where
  "join sep [] = []"
| "join sep [x] = x"
| "join sep (x # y # ys) = x @ sep @ join sep (y # ys)"

primrec py_repr :: "json \<Rightarrow> string" where
  "py_repr JNull = ''None''"
| "py_repr (JBool b) = (if b then ''True'' else ''False'')"
| "py_repr (JInt i) = str_int i"
| "py_repr (JStr s) = repr_str s"
| "py_repr (JList xs) = ''['' @ join '', '' (map py_repr xs) @ '']''"
| "py_repr (JDict d) =
     ''{'' @ join '', '' (map (\<lambda>(k, r). repr_str k @ '': '' @ r) (map (map_prod id py_repr) d)) @ ''}''"

definition py_str :: "json \<Rightarrow> string" where
  "py_str v = (case v of JStr s \<Rightarrow> s | _ \<Rightarrow> py_repr v)"

text \<open>
  \<open>str.lower()\<close>: the upper-case letters are the code points 65 to 90 (A to Z) and 192
  to 222 without 215 (the multiplication sign); the lower-case letter is 32 further.
\<close>

definition lower_char :: "char \<Rightarrow> char" where
  "lower_char c =
     (let n = (of_char c :: nat)
      in if (65 \<le> n \<and> n \<le> 90) \<or> (192 \<le> n \<and> n \<le> 222 \<and> n \<noteq> 215)
         then char_of (n + 32) else c)"

definition lower :: "string \<Rightarrow> string" where
  "lower s = map lower_char s"

text \<open>
  \<open>str.strip()\<close> removes the white space of \<open>str.isspace()\<close>: the code points 9 to 13,
  28 to 32, 133 (next line) and 160 (no-break space).
\<close>

definition is_space :: "char \<Rightarrow> bool" where
  "is_space c =
     (let n = (of_char c :: nat)
      in (9 \<le> n \<and> n \<le> 13) \<or> (28 \<le> n \<and> n \<le> 32) \<or> n = 133 \<or> n = 160)"

definition strip :: "string \<Rightarrow> string" where
  "strip s = rev (dropWhile is_space (rev (dropWhile is_space s)))"

subsection \<open>Truth value, comparison with an integer, iteration, membership\<close>

fun py_truthy :: "json \<Rightarrow> bool" where
  "py_truthy JNull = False"
| "py_truthy (JBool b) = b"
| "py_truthy (JInt i) = (i \<noteq> 0)"
| "py_truthy (JStr s) = (s \<noteq> [])"
| "py_truthy (JList xs) = (xs \<noteq> [])"
| "py_truthy (JDict d) = (d \<noteq> [])"

text \<open>\<open>v == n\<close> for an integer \<open>n\<close>: Python's \<open>True\<close> equals 1 and \<open>False\<close> equals 0.\<close>

fun py_eq_int :: "json \<Rightarrow> int \<Rightarrow> bool" where
  "py_eq_int (JInt i) n = (i = n)"
| "py_eq_int (JBool b) n = ((if b then 1 else 0) = n)"
| "py_eq_int _ n = False"

text \<open>\<open>isinstance(v, int)\<close>: \<open>bool\<close> is a subclass of \<open>int\<close>.\<close>

fun isinstance_int :: "json \<Rightarrow> bool" where
  "isinstance_int (JInt i) = True"
| "isinstance_int (JBool b) = True"
| "isinstance_int _ = False"

text \<open>\<open>d.get(k, default)\<close> on a dictionary.\<close>

definition py_get :: "(string \<times> json) list \<Rightarrow> string \<Rightarrow> json \<Rightarrow> json" where
  "py_get d k dflt = (case map_of d k of Some v \<Rightarrow> v | None \<Rightarrow> dflt)"

text \<open>
  What \<open>for x in v\<close> and \<open>list.extend(v)\<close> run over: the elements of a list, the
  characters of a string, the keys of a dictionary; anything else is not iterable.
\<close>

fun py_iter :: "json \<Rightarrow> error + json list" where
  "py_iter (JList xs) = Inr xs"
| "py_iter (JStr s) = Inr (map (\<lambda>c. JStr [c]) s)"
| "py_iter (JDict d) = Inr (map (\<lambda>kv. JStr (fst kv)) d)"
| "py_iter _ = Inl TypeError"

fun is_infix :: "string \<Rightarrow> string \<Rightarrow> bool" where
  "is_infix k [] = (k = [])"
| "is_infix k (c # cs) = (take (length k) (c # cs) = k \<or> is_infix k cs)"

text \<open>\<open>key in v\<close> for a string \<open>key\<close>.\<close>

fun py_contains :: "string \<Rightarrow> json \<Rightarrow> error + bool" where
  "py_contains key (JDict d) = Inr (map_of d key \<noteq> None)"
| "py_contains key (JList xs) = Inr (JStr key \<in> set xs)"
| "py_contains key (JStr s) = Inr (is_infix key s)"
| "py_contains key _ = Inl TypeError"

text \<open>\<open>v[key]\<close> for a string \<open>key\<close>.\<close>

fun py_getitem :: "json \<Rightarrow> string \<Rightarrow> error + json" where
  "py_getitem (JDict d) key = (case map_of d key of Some v \<Rightarrow> Inr v | None \<Rightarrow> Inl KeyError)"
| "py_getitem _ key = Inl TypeError"

section \<open>HTTP helpers\<close>

text \<open>
  A request is what \<open>requests.get\<close> or \<open>requests.post\<close> sends: the URL with the query
  parameters, or the URL with the JSON body. The remote store answers a request given
  the requests it has received so far; \<open>Unreachable\<close> stands for \<open>requests\<close> raising
  (no connection, timeout). A response whose body is not JSON has \<open>body = None\<close>, and
  \<open>r.json()\<close> raises on it. The world keeps the requests sent, in order, and what
  \<open>logging.error\<close> has reported. \<open>time.sleep\<close> and the \<open>logging.info\<close> narration are
  left out.
\<close>

datatype request =
    GET string "(string \<times> int) list"
  | POST string json

record response =
  status_code :: int
  resp_text :: string
  body :: "json option"

datatype reply = Unreachable | Reply response

type_synonym server = "request list \<Rightarrow> request \<Rightarrow> reply"

datatype log_entry = LogError string | LogPostError error

record world =
  requests :: "request list"
  error_log :: "log_entry list"

definition QASE_API_BASE :: string where
  "QASE_API_BASE = ''https://api.qase.io/v1''"

definition MAPPING_FIELD_ID :: int where
  "MAPPING_FIELD_ID = 1"

definition api_get :: "server \<Rightarrow> string \<Rightarrow> (string \<times> int) list \<Rightarrow> world \<Rightarrow> (error + json) \<times> world" where
  "api_get srv url params w =
     (let w' = w\<lparr>requests := requests w @ [GET url params]\<rparr> in
      case srv (requests w) (GET url params) of
        Unreachable \<Rightarrow> (Inl RequestException, w')
      | Reply r \<Rightarrow>
          if status_code r \<noteq> 200
          then (Inl (RuntimeError (''GET '' @ url @ '' failed: '' @ str_int (status_code r) @ '' '' @ resp_text r)), w')
          else (case body r of None \<Rightarrow> (Inl JSONDecodeError, w') | Some j \<Rightarrow> (Inr j, w')))"

definition api_post :: "server \<Rightarrow> string \<Rightarrow> json \<Rightarrow> world \<Rightarrow> (error + json) \<times> world" where
  "api_post srv url payload w =
     (let w' = w\<lparr>requests := requests w @ [POST url payload]\<rparr> in
      case srv (requests w) (POST url payload) of
        Unreachable \<Rightarrow> (Inl RequestException, w')
      | Reply r \<Rightarrow>
          if status_code r \<noteq> 200 \<and> status_code r \<noteq> 201
          then (Inl (RuntimeError (''POST '' @ url @ '' failed: '' @ str_int (status_code r) @ '' '' @ resp_text r)), w')
          else (case body r of None \<Rightarrow> (Inl JSONDecodeError, w') | Some j \<Rightarrow> (Inr j, w')))"

section \<open>Pagination helper\<close>

text \<open>
  The \<open>for key in ("entities", "items", "results", "cases")\<close> loop of \<open>paginate\<close>:
  the value under the first key that \<open>result\<close> contains, \<open>None\<close> when it contains none.
\<close>

fun find_entities :: "string list \<Rightarrow> json \<Rightarrow> error + json" where
  "find_entities [] result = Inr JNull"
| "find_entities (key # keys) result =
     (case py_contains key result of
        Inl e \<Rightarrow> Inl e
      | Inr b \<Rightarrow> if b then py_getitem result key else find_entities keys result)"

definition page_entities :: "json \<Rightarrow> error + json" where
  "page_entities resp =
     (case resp of
        JDict env \<Rightarrow> find_entities [''entities'', ''items'', ''results'', ''cases''] (py_get env ''result'' (JDict []))
      | _ \<Rightarrow> Inl AttributeError)"

text \<open>
  The \<open>while True\<close> loop of \<open>paginate\<close>, with the page counter and the items collected
  so far. The loop has no bound of its own: against a store that keeps sending full
  pages it does not return, which is the value \<open>None\<close>.
\<close>

partial_function (option) paginate_loop ::
  "server \<Rightarrow> string \<Rightarrow> int \<Rightarrow> json list \<Rightarrow> world \<Rightarrow> ((error + json list) \<times> world) option" where
  "paginate_loop srv url page items w =
     (case api_get srv url [(''page'', page), (''limit'', 100)] w of
        (Inl e, w') \<Rightarrow> Some (Inl e, w')
      | (Inr resp, w') \<Rightarrow>
          (case page_entities resp of
             Inl e \<Rightarrow> Some (Inl e, w')
           | Inr entities \<Rightarrow>
               if \<not> py_truthy entities then Some (Inr items, w')
               else (case py_iter entities of
                       Inl e \<Rightarrow> Some (Inl e, w')
                     | Inr es \<Rightarrow>
                         if length es < 100 then Some (Inr (items @ es), w')
                         else paginate_loop srv url (page + 1) (items @ es) w')))"

definition paginate :: "server \<Rightarrow> string \<Rightarrow> world \<Rightarrow> ((error + json list) \<times> world) option" where
  "paginate srv url w = paginate_loop srv url 1 [] w"

section \<open>Qase helpers\<close>

definition get_all_cases :: "server \<Rightarrow> string \<Rightarrow> world \<Rightarrow> ((error + json list) \<times> world) option" where
  "get_all_cases srv project w = paginate srv (QASE_API_BASE @ ''/case/'' @ project) w"

definition get_case :: "server \<Rightarrow> string \<Rightarrow> json \<Rightarrow> world \<Rightarrow> (error + json) \<times> world" where
  "get_case srv project case_id w =
     (case api_get srv (QASE_API_BASE @ ''/case/'' @ project @ ''/'' @ py_str case_id) [] w of
        (Inl e, w') \<Rightarrow> (Inl e, w')
      | (Inr resp, w') \<Rightarrow>
          (case resp of JDict env \<Rightarrow> (Inr (py_get env ''result'' JNull), w')
                      | _ \<Rightarrow> (Inl AttributeError, w')))"

definition get_all_results :: "server \<Rightarrow> string \<Rightarrow> world \<Rightarrow> ((error + json list) \<times> world) option" where
  "get_all_results srv project w = paginate srv (QASE_API_BASE @ ''/result/'' @ project) w"

definition post_result :: "server \<Rightarrow> string \<Rightarrow> int \<Rightarrow> json \<Rightarrow> world \<Rightarrow> (error + json) \<times> world" where
  "post_result srv project run_id payload w =
     api_post srv (QASE_API_BASE @ ''/result/'' @ project @ ''/'' @ str_int run_id) payload w"

section \<open>Mapping helpers\<close>

text \<open>
  \<open>extract_custom_field_value\<close>: the loop over the items of \<open>cf_list\<close>, returning at the
  first item whose \<open>id\<close> equals \<open>field_id\<close>; \<open>None\<close> when no item does. An item that
  is not a dictionary has no \<open>get\<close>.
\<close>

fun extract_loop :: "json list \<Rightarrow> int \<Rightarrow> error + string option" where
  "extract_loop [] field_id = Inr None"
| "extract_loop (item # rest) field_id =
     (case item of
        JDict d \<Rightarrow>
          if py_eq_int (py_get d ''id'' JNull) field_id
          then Inr (Some (strip (py_str (py_get d ''value'' JNull))))
          else extract_loop rest field_id
      | _ \<Rightarrow> Inl AttributeError)"

definition extract_custom_field_value :: "json \<Rightarrow> int \<Rightarrow> error + string option" where
  "extract_custom_field_value cf_list field_id =
     (case py_iter cf_list of Inl e \<Rightarrow> Inl e | Inr its \<Rightarrow> extract_loop its field_id)"

text \<open>
  The \<open>for case in cases\<close> loop of \<open>build_mapping\<close>. The table is a Python dictionary:
  assigning to a key that is present replaces its value, assigning to a new key adds it
  at the end. \<open>if mapping_value:\<close> holds for a string that is not empty, and not
  for \<open>None\<close>.
\<close>

fun build_mapping_loop :: "json list \<Rightarrow> (string \<times> json) list \<Rightarrow> error + (string \<times> json) list" where
  "build_mapping_loop [] mapping = Inr mapping"
| "build_mapping_loop (c # cases) mapping =
     (case c of
        JDict d \<Rightarrow>
          (case extract_custom_field_value (py_get d ''custom_fields'' (JList [])) MAPPING_FIELD_ID of
             Inl e \<Rightarrow> Inl e
           | Inr None \<Rightarrow> build_mapping_loop cases mapping
           | Inr (Some mapping_value) \<Rightarrow>
               if mapping_value \<noteq> []
               then (case py_getitem c ''id'' of
                       Inl e \<Rightarrow> Inl e
                     | Inr i \<Rightarrow> build_mapping_loop cases (AList.update mapping_value i mapping))
               else build_mapping_loop cases mapping)
      | _ \<Rightarrow> Inl AttributeError)"

definition build_mapping :: "server \<Rightarrow> string \<Rightarrow> world \<Rightarrow> ((error + (string \<times> json) list) \<times> world) option" where
  "build_mapping srv project w =
     (case get_all_cases srv project w of
        None \<Rightarrow> None
      | Some (Inl e, w') \<Rightarrow> Some (Inl e, w')
      | Some (Inr cases, w') \<Rightarrow> Some (build_mapping_loop cases [], w'))"

definition convert_status :: "json \<Rightarrow> json" where
  "convert_status s =
     (let mapping = [(''passed'', 1), (''failed'', 5), (''skipped'', 2), (''blocked'', 3)] in
      if isinstance_int s then s
      else JInt (case map_of mapping (lower (py_str s)) of Some c \<Rightarrow> c | None \<Rightarrow> 4))"

section \<open>Main logic\<close>

record summary =
  copied :: int
  skipped :: int
  errors :: int

text \<open>
  The list comprehension \<open>[r for r in all_results if r.get("run_id") == run_b]\<close>.
\<close>

fun filter_run :: "json list \<Rightarrow> int \<Rightarrow> error + json list" where
  "filter_run [] run_b = Inr []"
| "filter_run (r # rs) run_b =
     (case r of
        JDict d \<Rightarrow>
          (case filter_run rs run_b of
             Inl e \<Rightarrow> Inl e
           | Inr keep \<Rightarrow> Inr (if py_eq_int (py_get d ''run_id'' JNull) run_b then r # keep else keep))
      | _ \<Rightarrow> Inl AttributeError)"

text \<open>
  The body of the \<open>for res in results_b\<close> loop of \<open>copy_results\<close>, on the summary and the
  world. \<open>Inl\<close> is an exception that leaves the loop and \<open>copy_results\<close>; the
  \<open>try\<close>/\<open>except Exception\<close> is around \<open>post_result\<close> only.
\<close>

definition copy_results_step ::
  "server \<Rightarrow> (string \<times> json) list \<Rightarrow> string \<Rightarrow> int \<Rightarrow> string \<Rightarrow> int \<Rightarrow> json \<Rightarrow> summary \<Rightarrow> world
     \<Rightarrow> (error + summary) \<times> world" where
  "copy_results_step srv mapping_a project_a run_a project_b run_b res sm w =
     (case res of
        JDict r \<Rightarrow>
          (let case_id_b = py_get r ''case_id'' JNull;
               status_raw = py_get r ''status'' JNull
           in case get_case srv project_b case_id_b w of
                (Inl e, w1) \<Rightarrow> (Inl e, w1)
              | (Inr case_b, w1) \<Rightarrow>
                  if \<not> py_truthy case_b then (Inr (sm\<lparr>errors := errors sm + 1\<rparr>), w1)
                  else (case case_b of
                          JDict c \<Rightarrow>
                            (case extract_custom_field_value (py_get c ''custom_fields'' (JList [])) MAPPING_FIELD_ID of
                               Inl e \<Rightarrow> (Inl e, w1)
                             | Inr None \<Rightarrow> (Inr (sm\<lparr>skipped := skipped sm + 1\<rparr>), w1)
                             | Inr (Some mapping_value) \<Rightarrow>
                                 if mapping_value = [] then (Inr (sm\<lparr>skipped := skipped sm + 1\<rparr>), w1)
                                 else (let target_case_id =
                                             (case map_of mapping_a mapping_value of Some t \<Rightarrow> t | None \<Rightarrow> JNull)
                                       in if \<not> py_truthy target_case_id then (Inr (sm\<lparr>skipped := skipped sm + 1\<rparr>), w1)
                                          else (let payload =
                                                      JDict [(''case_id'', target_case_id),
                                                             (''status'', JStr (lower (py_str status_raw))),
                                                             (''comment'', JStr (''Copied from '' @ project_b @ '' run '' @ str_int run_b))]
                                                in case post_result srv project_a run_a payload w1 of
                                                     (Inr ok, w2) \<Rightarrow> (Inr (sm\<lparr>copied := copied sm + 1\<rparr>), w2)
                                                   | (Inl e, w2) \<Rightarrow>
                                                       (Inr (sm\<lparr>errors := errors sm + 1\<rparr>),
                                                        w2\<lparr>error_log := error_log w2 @ [LogPostError e]\<rparr>))))
                        | _ \<Rightarrow> (Inl AttributeError, w1)))
      | _ \<Rightarrow> (Inl AttributeError, w))"

fun copy_results_loop ::
  "server \<Rightarrow> (string \<times> json) list \<Rightarrow> string \<Rightarrow> int \<Rightarrow> string \<Rightarrow> int \<Rightarrow> json list \<Rightarrow> summary \<Rightarrow> world
     \<Rightarrow> (error + summary) \<times> world" where
  "copy_results_loop srv mapping_a project_a run_a project_b run_b [] sm w = (Inr sm, w)"
| "copy_results_loop srv mapping_a project_a run_a project_b run_b (res # rest) sm w =
     (case copy_results_step srv mapping_a project_a run_a project_b run_b res sm w of
        (Inl e, w') \<Rightarrow> (Inl e, w')
      | (Inr sm', w') \<Rightarrow> copy_results_loop srv mapping_a project_a run_a project_b run_b rest sm' w')"

text \<open>
  \<open>copy_results\<close> returns nothing in Python; what it produces is the file
  \<open>summary.json\<close>. The result here is the summary written to that file, \<open>None\<close> when the
  function returns before writing one. \<open>Inl\<close> is an exception that escapes the
  function, and the outer \<open>None\<close> a pagination that does not end.
\<close>

definition copy_results ::
  "server \<Rightarrow> string \<Rightarrow> int \<Rightarrow> string \<Rightarrow> int \<Rightarrow> world \<Rightarrow> ((error + summary option) \<times> world) option" where
  "copy_results srv project_a run_a project_b run_b w =
     (case build_mapping srv project_a w of
        None \<Rightarrow> None
      | Some (Inl e, w1) \<Rightarrow> Some (Inl e, w1)
      | Some (Inr mapping_a, w1) \<Rightarrow>
          if mapping_a = []
          then Some (Inr None, w1\<lparr>error_log := error_log w1 @ [LogError ''No mapping_id found in Project A.'']\<rparr>)
          else (case get_all_results srv project_b w1 of
                  None \<Rightarrow> None
                | Some (Inl e, w2) \<Rightarrow> Some (Inl e, w2)
                | Some (Inr all_results, w2) \<Rightarrow>
                    (case filter_run all_results run_b of
                       Inl e \<Rightarrow> Some (Inl e, w2)
                     | Inr results_b \<Rightarrow>
                         (case copy_results_loop srv mapping_a project_a run_a project_b run_b results_b
                                 \<lparr>copied = 0, skipped = 0, errors = 0\<rparr> w2 of
                            (Inl e, w3) \<Rightarrow> Some (Inl e, w3)
                          | (Inr sm, w3) \<Rightarrow> Some (Inr (Some sm), w3)))))"

section \<open>Notions used to state the properties\<close>

text \<open>A result belongs to run \<open>run_b\<close>: the test of the list comprehension.\<close>

definition has_run_id :: "int \<Rightarrow> json \<Rightarrow> bool" where
  "has_run_id run_b r = (case r of JDict d \<Rightarrow> py_eq_int (py_get d ''run_id'' JNull) run_b | _ \<Rightarrow> False)"

text \<open>
  What one result adds to the summary: exactly one of the three counters goes up by
  one.
\<close>

datatype outcome = Copied | Skipped | Errored

fun count_outcome :: "summary \<Rightarrow> outcome \<Rightarrow> summary" where
  "count_outcome sm Copied = sm\<lparr>copied := copied sm + 1\<rparr>"
| "count_outcome sm Skipped = sm\<lparr>skipped := skipped sm + 1\<rparr>"
| "count_outcome sm Errored = sm\<lparr>errors := errors sm + 1\<rparr>"

text \<open>
  A case carries the external mapping value \<open>v\<close>: what \<open>build_mapping\<close> and
  \<open>copy_results\<close> extract from its custom fields is \<open>v\<close>.
\<close>

definition carries :: "json \<Rightarrow> string \<Rightarrow> bool" where
  "carries c v =
     (case c of
        JDict d \<Rightarrow> extract_custom_field_value (py_get d ''custom_fields'' (JList [])) MAPPING_FIELD_ID = Inr (Some v)
      | _ \<Rightarrow> False)"

text \<open>The GET that \<open>paginate\<close> sends for a page, and the URLs of the helpers.\<close>

definition page_request :: "string \<Rightarrow> int \<Rightarrow> request" where
  "page_request url page = GET url [(''page'', page), (''limit'', 100)]"

text \<open>
  The item value that \<open>paginate\<close> reads from the store's answer to a page request:
  the response has status 200, a JSON body, and the key search succeeds.
\<close>

definition reply_entities :: "reply \<Rightarrow> json option" where
  "reply_entities rep =
     (case rep of
        Unreachable \<Rightarrow> None
      | Reply r \<Rightarrow>
          if status_code r = 200
          then (case body r of
                  None \<Rightarrow> None
                | Some j \<Rightarrow> (case page_entities j of Inl e \<Rightarrow> None | Inr entities \<Rightarrow> Some entities))
          else None)"


definition case_url :: "string \<Rightarrow> json \<Rightarrow> string" where
  "case_url project case_id = QASE_API_BASE @ ''/case/'' @ project @ ''/'' @ py_str case_id"

definition result_url :: "string \<Rightarrow> int \<Rightarrow> string" where
  "result_url project run_id = QASE_API_BASE @ ''/result/'' @ project @ ''/'' @ str_int run_id"

section \<open>Example stores\<close>

text \<open>
  Remote stores on which the theorems below are exercised. A store given by a table
  answers the requests of the table and 404 to any other; its responses have the
  envelope of the Qase API.
\<close>

definition w0 :: world where
  "w0 = \<lparr>requests = [], error_log = []\<rparr>"

definition not_found :: reply where
  "not_found = Reply \<lparr>status_code = 404, resp_text = ''Not Found'', body = None\<rparr>"

definition ok_reply :: "json \<Rightarrow> reply" where
  "ok_reply r = Reply \<lparr>status_code = 200, resp_text = ''OK'',
                        body = Some (JDict [(''status'', JBool True), (''result'', r)])\<rparr>"

definition table_store :: "(request \<times> reply) list \<Rightarrow> server" where
  "table_store t h req = (case map_of t req of Some r \<Rightarrow> r | None \<Rightarrow> not_found)"

definition mk_case :: "int \<Rightarrow> json \<Rightarrow> json" where
  "mk_case i v = JDict [(''id'', JInt i), (''custom_fields'', JList [JDict [(''id'', JInt 1), (''value'', v)]])]"

definition mk_result :: "int \<Rightarrow> int \<Rightarrow> string \<Rightarrow> json" where
  "mk_result run cid st = JDict [(''run_id'', JInt run), (''case_id'', JInt cid), (''status'', JStr st)]"

text \<open>A store that serves the collection \<open>xs\<close> at \<open>url\<close> in pages of 100 items.\<close>

definition paged_store :: "string \<Rightarrow> string \<Rightarrow> json list \<Rightarrow> server" where
  "paged_store url key xs h req =
     (case req of
        GET u ps \<Rightarrow>
          (case map_of ps ''page'' of
             Some p \<Rightarrow>
               if u = url \<and> 1 \<le> p
               then ok_reply (JDict [(''total'', JInt (int (length xs))),
                                     (key, JList (take 100 (drop (100 * nat (p - 1)) xs)))])
               else not_found
           | None \<Rightarrow> not_found)
      | POST u j \<Rightarrow> not_found)"

text \<open>
  Project A has two cases with the mapping value 1001, a case whose internal identifier
  is 0, and a case with the value 1002. Project B has six results, five of them of run
  7: the write of the first fails with status 500, the second is written, the third
  maps to the identifier 0, the case of the fourth has a null \<open>result\<close>, and the case
  of the fifth has no custom field.
\<close>

definition demo_store :: server where
  "demo_store = table_store
     [(page_request ''https://api.qase.io/v1/case/A'' 1,
         ok_reply (JDict [(''entities'',
            JList [mk_case 1 (JStr ''1001''), mk_case 2 (JStr '' 1001 ''),
                   mk_case 0 (JInt 1003), mk_case 5 (JStr ''1002'')])])),
      (page_request ''https://api.qase.io/v1/result/B'' 1,
         ok_reply (JDict [(''entities'',
            JList [mk_result 7 10 ''Passed'', mk_result 7 11 ''FAILED'', mk_result 8 10 ''passed'',
                   mk_result 7 12 ''passed'', mk_result 7 13 ''passed'', mk_result 7 14 ''blocked''])])),
      (GET ''https://api.qase.io/v1/case/B/10'' [], ok_reply (mk_case 10 (JStr ''1001''))),
      (GET ''https://api.qase.io/v1/case/B/11'' [], ok_reply (mk_case 11 (JStr ''1002''))),
      (GET ''https://api.qase.io/v1/case/B/12'' [], ok_reply (mk_case 12 (JStr ''1003''))),
      (GET ''https://api.qase.io/v1/case/B/13'' [], ok_reply JNull),
      (GET ''https://api.qase.io/v1/case/B/14'' [], ok_reply (JDict [(''id'', JInt 14)])),
      (POST ''https://api.qase.io/v1/result/A/3''
            (JDict [(''case_id'', JInt 2), (''status'', JStr ''passed''),
                    (''comment'', JStr ''Copied from B run 7'')]),
         Reply \<lparr>status_code = 500, resp_text = ''Internal Server Error'', body = None\<rparr>),
      (POST ''https://api.qase.io/v1/result/A/3''
            (JDict [(''case_id'', JInt 5), (''status'', JStr ''failed''),
                    (''comment'', JStr ''Copied from B run 7'')]),
         ok_reply (JDict [(''hash'', JStr ''abc'')]))]"

text \<open>
  A store with text outside ASCII. In project A the cases 1 and 2 carry the value 1001,
  the second followed by a no-break space, and case 5 the value 1002. Project B has one
  result of run 7, with the status \<open>ECHEC\<close> whose first letter is the capital E with
  acute accent (code point 201); its case carries 1001 after a next-line character.
\<close>

definition latin1_store :: server where
  "latin1_store = table_store
     [(page_request ''https://api.qase.io/v1/case/A'' 1,
         ok_reply (JDict [(''entities'',
            JList [mk_case 1 (JStr ''1001''), mk_case 2 (JStr (''1001'' @ [CHR 0xA0])),
                   mk_case 5 (JStr ''1002'')])])),
      (page_request ''https://api.qase.io/v1/result/B'' 1,
         ok_reply (JDict [(''entities'', JList [mk_result 7 10 (CHR 0xC9 # ''CHEC'')])])),
      (GET ''https://api.qase.io/v1/case/B/10'' [], ok_reply (mk_case 10 (JStr (CHR 0x85 # ''1001'')))),
      (POST ''https://api.qase.io/v1/result/A/3''
            (JDict [(''case_id'', JInt 2), (''status'', JStr (CHR 0xE9 # ''chec'')),
                    (''comment'', JStr ''Copied from B run 7'')]),
         ok_reply (JDict [(''hash'', JStr ''abc'')]))]"

text \<open>
  Project A has one case with the value 1001. Project B has two results of run 7; the
  store has no case 10 and answers 404 for it, and has case 11.
\<close>

definition missing_case_store :: server where
  "missing_case_store = table_store
     [(page_request ''https://api.qase.io/v1/case/A'' 1,
         ok_reply (JDict [(''entities'', JList [mk_case 1 (JStr ''1001'')])])),
      (page_request ''https://api.qase.io/v1/result/B'' 1,
         ok_reply (JDict [(''entities'', JList [mk_result 7 10 ''passed'', mk_result 7 11 ''passed''])])),
      (GET ''https://api.qase.io/v1/case/B/11'' [], ok_reply (mk_case 11 (JStr ''1001''))),
      (POST ''https://api.qase.io/v1/result/A/3''
            (JDict [(''case_id'', JInt 1), (''status'', JStr ''passed''),
                    (''comment'', JStr ''Copied from B run 7'')]),
         ok_reply (JDict [(''hash'', JStr ''abc'')]))]"

text \<open>Project A has one case, whose mapping field has the value null.\<close>

definition null_value_store :: server where
  "null_value_store = table_store
     [(page_request ''https://api.qase.io/v1/case/A'' 1,
         ok_reply (JDict [(''entities'', JList [mk_case 7 JNull])]))]"

text \<open>Project A has one case, without a mapping field; project B has a result.\<close>

definition no_mapping_store :: server where
  "no_mapping_store = table_store
     [(page_request ''https://api.qase.io/v1/case/A'' 1,
         ok_reply (JDict [(''entities'', JList [JDict [(''id'', JInt 1), (''custom_fields'', JList [])]])])),
      (page_request ''https://api.qase.io/v1/result/B'' 1,
         ok_reply (JDict [(''entities'', JList [mk_result 7 10 ''passed''])]))]"

section \<open>The status translator\<close>

text \<open>
  Claim C4. \<open>convert_status\<close> returns an integer input unchanged (Python's booleans are
  instances of \<open>int\<close> and pass through as well); for any other input it lower-cases the
  stringified value and maps \<open>passed\<close> to 1, \<open>failed\<close> to 5, \<open>skipped\<close> to 2, \<open>blocked\<close>
  to 3 and everything else, \<open>None\<close> included, to 4. No operation of the function can
  raise on these values, so it is a total function without an error result.
\<close>

theorem convert_status_table:
  "(isinstance_int s \<longrightarrow> convert_status s = s) \<and>
   convert_status (JInt n) = JInt n \<and>
   (\<not> isinstance_int s \<longrightarrow>
      convert_status s =
        JInt (if lower (py_str s) = ''passed'' then 1
              else if lower (py_str s) = ''failed'' then 5
              else if lower (py_str s) = ''skipped'' then 2
              else if lower (py_str s) = ''blocked'' then 3
              else 4)) \<and>
   convert_status JNull = JInt 4"
  by (simp add: convert_status_def py_str_def lower_def lower_char_def)

theorem convert_status_table_witness:
  "convert_status (JStr ''PASSED'') = JInt 1 \<and>
   convert_status (JStr ''Skipped'') = JInt 2 \<and>
   convert_status (JStr ''blocked'') = JInt 3 \<and>
   convert_status (JStr ''failed'') = JInt 5 \<and>
   convert_status (JStr ''weird-value'') = JInt 4 \<and>
   convert_status (JInt 7) = JInt 7 \<and>
   convert_status (JBool True) = JBool True"
  using convert_status_table [of "JStr ''PASSED''" 7]
        convert_status_table [of "JStr ''Skipped''" 7]
        convert_status_table [of "JStr ''blocked''" 7]
        convert_status_table [of "JStr ''failed''" 7]
        convert_status_table [of "JStr ''weird-value''" 7]
        convert_status_table [of "JBool True" 7]
  by (simp add: py_str_def lower_def lower_char_def char_of_def bit_0)

section \<open>The paginated collection reader\<close>

text \<open>Every call of an HTTP helper adds exactly its own request to the world.\<close>

lemma api_get_world:
  "api_get srv url params w = (res, w') \<Longrightarrow> w' = w\<lparr>requests := requests w @ [GET url params]\<rparr>"
  by (auto simp: api_get_def Let_def split: reply.splits if_splits option.splits)

lemma api_post_world:
  "api_post srv url payload w = (res, w') \<Longrightarrow> w' = w\<lparr>requests := requests w @ [POST url payload]\<rparr>"
  by (auto simp: api_post_def Let_def split: reply.splits if_splits option.splits)

text \<open>
  One turn of the loop of \<open>paginate\<close>: a page with fewer than 100 items ends the loop,
  a page with 100 items or more leads to the request for the next page.
\<close>

lemma paginate_loop_last_page:
  assumes "reply_entities (srv (requests w) (page_request url page)) = Some (JList es)"
    and "length es < 100"
  shows "paginate_loop srv url page items w =
           Some (Inr (items @ es), w\<lparr>requests := requests w @ [page_request url page]\<rparr>)"
  using assms
  by (subst paginate_loop.simps)
     (cases es; simp add: api_get_def page_request_def reply_entities_def
        split: reply.splits option.splits sum.splits if_splits)

lemma paginate_loop_full_page:
  assumes "reply_entities (srv (requests w) (page_request url page)) = Some (JList es)"
    and "100 \<le> length es"
  shows "paginate_loop srv url page items w =
           paginate_loop srv url (page + 1) (items @ es) (w\<lparr>requests := requests w @ [page_request url page]\<rparr>)"
  using assms
  by (subst paginate_loop.simps)
     (cases es; simp add: api_get_def page_request_def reply_entities_def
        split: reply.splits option.splits sum.splits if_splits)

lemma split_250:
  assumes "length xs = 250"
  shows "(take 100 xs @ take 100 (drop 100 xs)) @ take 100 (drop 200 xs) = (xs :: 'a list)"
proof -
  have "drop 100 (drop 200 xs) = []" using assms by simp
  then have "drop 200 xs = take 100 (drop 200 xs)" by (metis append_take_drop_id append_Nil2)
  then show ?thesis
    by (metis append_take_drop_id append_assoc drop_drop numeral_Bit0)
qed

text \<open>
  The requests that \<open>paginate\<close> sends are the page requests for consecutive pages of its
  URL, and nothing else changes in the world.
\<close>

lemma page_requests_Suc:
  "map (\<lambda>i. page_request url (page + int i)) [0..<Suc n] =
     page_request url page # map (\<lambda>i. page_request url (page + 1 + int i)) [0..<n]"
  by (simp add: upt_conv_Cons map_Suc_upt [symmetric] add.assoc del: upt_Suc)

lemma paginate_loop_world:
  assumes "paginate_loop srv url page items w = Some y"
  shows "\<exists>n. snd y = w\<lparr>requests := requests w @ map (\<lambda>i. page_request url (page + int i)) [0..<n]\<rparr>"
proof (rule paginate_loop.raw_induct
    [where P = "\<lambda>srv url page items w y.
       \<exists>n. snd y = w\<lparr>requests := requests w @ map (\<lambda>i. page_request url (page + int i)) [0..<n]\<rparr>",
     OF _ assms])
  fix loop :: "server \<Rightarrow> string \<Rightarrow> int \<Rightarrow> json list \<Rightarrow> world \<Rightarrow> ((error + json list) \<times> world) option"
  fix srv url page items w y
  assume IH: "\<And>srv url page items w y. loop srv url page items w = Some y \<Longrightarrow>
     \<exists>n. snd y = w\<lparr>requests := requests w @ map (\<lambda>i. page_request url (page + int i)) [0..<n]\<rparr>"
  assume body: "(case api_get srv url [(''page'', page), (''limit'', 100)] w of
        (Inl e, w') \<Rightarrow> Some (Inl e, w')
      | (Inr resp, w') \<Rightarrow>
          (case page_entities resp of
             Inl e \<Rightarrow> Some (Inl e, w')
           | Inr entities \<Rightarrow>
               if \<not> py_truthy entities then Some (Inr items, w')
               else (case py_iter entities of
                       Inl e \<Rightarrow> Some (Inl e, w')
                     | Inr es \<Rightarrow>
                         if length es < 100 then Some (Inr (items @ es), w')
                         else loop srv url (page + 1) (items @ es) w'))) = Some y"
  let ?goal = "\<exists>n. snd y = w\<lparr>requests := requests w @ map (\<lambda>i. page_request url (page + int i)) [0..<n]\<rparr>"
  obtain r w1 where g: "api_get srv url [(''page'', page), (''limit'', 100)] w = (r, w1)"
    by (cases "api_get srv url [(''page'', page), (''limit'', 100)] w")
  then have w1: "w1 = w\<lparr>requests := requests w @ [page_request url page]\<rparr>"
    unfolding page_request_def by (rule api_get_world)
  have one: "\<exists>n. w1 = w\<lparr>requests := requests w @ map (\<lambda>i. page_request url (page + int i)) [0..<n]\<rparr>"
    unfolding w1 by (rule exI [of _ 1]) simp
  have more: ?goal if "loop srv url (page + 1) its w1 = Some y" for its
  proof -
    from IH [OF that] obtain n where
      n: "snd y = w1\<lparr>requests := requests w1 @ map (\<lambda>i. page_request url (page + 1 + int i)) [0..<n]\<rparr>" ..
    show ?goal unfolding n w1 by (intro exI [of _ "Suc n"]) (simp only: page_requests_Suc, simp)
  qed
  from body show ?goal
    unfolding g
    using one by (auto split: sum.splits if_splits intro: more)
qed

text \<open>
  Claim C3. Against a store that serves a collection of 250 items in pages of 100,
  \<open>paginate\<close> sends exactly the three requests for the pages 1, 2 and 3, which yield 100,
  100 and 50 items, and returns the 250 items in the order of the store. And in any
  state of the loop, a page of fewer than 100 items, empty or not, is the last one:
  the loop returns the items collected with those of this page, after this one request.
\<close>

theorem paginate_pages:
  "(length xs = 250 \<longrightarrow>
    (\<forall>h p. 1 \<le> p \<longrightarrow>
       reply_entities (srv h (page_request url p)) = Some (JList (take 100 (drop (100 * nat (p - 1)) xs)))) \<longrightarrow>
    paginate srv url w =
      Some (Inr xs, w\<lparr>requests := requests w @ [page_request url 1, page_request url 2, page_request url 3]\<rparr>) \<and>
    map (\<lambda>p. length (take 100 (drop (100 * nat (p - 1)) xs))) [1, 2, 3] = [100, 100, 50]) \<and>
   (reply_entities (srv (requests w) (page_request url page)) = Some (JList es) \<longrightarrow> length es < 100 \<longrightarrow>
    paginate_loop srv url page items w =
      Some (Inr (items @ es), w\<lparr>requests := requests w @ [page_request url page]\<rparr>))"
proof (intro conjI impI)
  assume len: "length xs = 250"
    and srv: "\<forall>h p. 1 \<le> p \<longrightarrow>
       reply_entities (srv h (page_request url p)) = Some (JList (take 100 (drop (100 * nat (p - 1)) xs)))"
  let ?w1 = "w\<lparr>requests := requests w @ [page_request url 1]\<rparr>"
  let ?w2 = "?w1\<lparr>requests := requests ?w1 @ [page_request url 2]\<rparr>"
  let ?p1 = "take 100 xs" and ?p2 = "take 100 (drop 100 xs)" and ?p3 = "take 100 (drop 200 xs)"
  have 1: "reply_entities (srv (requests w) (page_request url 1)) = Some (JList ?p1)"
    using srv [rule_format, of 1 "requests w"] by simp
  have 2: "reply_entities (srv (requests ?w1) (page_request url 2)) = Some (JList ?p2)"
    using srv [rule_format, of 2 "requests ?w1"] by simp
  have 3: "reply_entities (srv (requests ?w2) (page_request url 3)) = Some (JList ?p3)"
    using srv [rule_format, of 3 "requests ?w2"] by simp
  have s1: "paginate_loop srv url 1 [] w = paginate_loop srv url 2 ?p1 ?w1"
    using paginate_loop_full_page [where srv = srv and w = w and url = url and page = 1 and items = "[]", OF 1] len by simp
  have s2: "paginate_loop srv url 2 ?p1 ?w1 = paginate_loop srv url 3 (?p1 @ ?p2) ?w2"
    using paginate_loop_full_page [where srv = srv and w = ?w1 and url = url and page = 2 and items = ?p1, OF 2] len by simp
  have s3: "paginate_loop srv url 3 (?p1 @ ?p2) ?w2 =
              Some (Inr ((?p1 @ ?p2) @ ?p3), ?w2\<lparr>requests := requests ?w2 @ [page_request url 3]\<rparr>)"
    using paginate_loop_last_page [where srv = srv and w = ?w2 and url = url and page = 3 and items = "?p1 @ ?p2", OF 3] len by simp
  show "paginate srv url w =
      Some (Inr xs, w\<lparr>requests := requests w @ [page_request url 1, page_request url 2, page_request url 3]\<rparr>)"
    unfolding paginate_def s1 s2 s3 split_250 [OF len] by simp
  show "map (\<lambda>p. length (take 100 (drop (100 * nat (p - 1)) xs))) [1, 2, 3] = [100, 100, 50]"
    using len by simp
next
  assume "reply_entities (srv (requests w) (page_request url page)) = Some (JList es)" "length es < 100"
  then show "paginate_loop srv url page items w =
      Some (Inr (items @ es), w\<lparr>requests := requests w @ [page_request url page]\<rparr>)"
    by (rule paginate_loop_last_page)
qed

lemma paged_store_serves:
  "1 \<le> p \<Longrightarrow> reply_entities (paged_store url ''entities'' xs h (page_request url p)) =
     Some (JList (take 100 (drop (100 * nat (p - 1)) xs)))"
  by (simp add: paged_store_def page_request_def reply_entities_def ok_reply_def page_entities_def py_get_def)

theorem paginate_pages_witness:
  "paginate (paged_store ''u'' ''entities'' (map JInt [1..250])) ''u'' w0 =
     Some (Inr (map JInt [1..250]),
           \<lparr>requests = [page_request ''u'' 1, page_request ''u'' 2, page_request ''u'' 3], error_log = []\<rparr>) \<and>
   paginate_loop (paged_store ''u'' ''entities'' [JInt 1, JInt 2]) ''u'' 1 [] w0 =
     Some (Inr [JInt 1, JInt 2], \<lparr>requests = [page_request ''u'' 1], error_log = []\<rparr>)"
  using paginate_pages [of "map JInt [1..250]" "paged_store ''u'' ''entities'' (map JInt [1..250])" "''u''" w0
          1 "[JInt 1, JInt 2]" "[]"]
        paginate_pages [of "[]" "paged_store ''u'' ''entities'' [JInt 1, JInt 2]" "''u''" w0
          1 "[JInt 1, JInt 2]" "[]"]
  by (simp add: paged_store_serves w0_def)

section \<open>Unfolding the example stores\<close>

lemmas store_defs =
  table_store_def page_request_def ok_reply_def mk_case_def mk_result_def not_found_def

lemmas http_defs =
  api_get_def api_post_def get_case_def post_result_def QASE_API_BASE_def py_get_def
  page_entities_def reply_entities_def

lemmas text_defs =
  py_str_def strip_def is_space_def lower_def lower_char_def char_of_def bit_0
  str_int_def str_nat.simps digit_char_def

lemmas mapping_defs = extract_custom_field_value_def MAPPING_FIELD_ID_def

lemma demo_cases:
  "get_all_cases demo_store ''A'' w =
     Some (Inr [mk_case 1 (JStr ''1001''), mk_case 2 (JStr '' 1001 ''), mk_case 0 (JInt 1003), mk_case 5 (JStr ''1002'')],
           w\<lparr>requests := requests w @ [page_request ''https://api.qase.io/v1/case/A'' 1]\<rparr>)"
  unfolding get_all_cases_def paginate_def
  by (subst paginate_loop.simps) (simp add: demo_store_def store_defs http_defs)

lemma demo_mapping:
  "build_mapping demo_store ''A'' w =
     Some (Inr [(''1001'', JInt 2), (''1003'', JInt 0), (''1002'', JInt 5)],
           w\<lparr>requests := requests w @ [page_request ''https://api.qase.io/v1/case/A'' 1]\<rparr>)"
  unfolding build_mapping_def demo_cases
  by (simp add: mk_case_def py_get_def mapping_defs text_defs)

lemma demo_results:
  "get_all_results demo_store ''B'' w =
     Some (Inr [mk_result 7 10 ''Passed'', mk_result 7 11 ''FAILED'', mk_result 8 10 ''passed'',
                mk_result 7 12 ''passed'', mk_result 7 13 ''passed'', mk_result 7 14 ''blocked''],
           w\<lparr>requests := requests w @ [page_request ''https://api.qase.io/v1/result/B'' 1]\<rparr>)"
  unfolding get_all_results_def paginate_def
  by (subst paginate_loop.simps) (simp add: demo_store_def store_defs http_defs)

lemma demo_get_case:
  "get_case demo_store ''B'' (JInt 10) w =
     (Inr (mk_case 10 (JStr ''1001'')), w\<lparr>requests := requests w @ [GET ''https://api.qase.io/v1/case/B/10'' []]\<rparr>)"
  "get_case demo_store ''B'' (JInt 12) w =
     (Inr (mk_case 12 (JStr ''1003'')), w\<lparr>requests := requests w @ [GET ''https://api.qase.io/v1/case/B/12'' []]\<rparr>)"
  by (simp_all add: demo_store_def store_defs http_defs text_defs)

lemma demo_carries:
  "carries (mk_case i (JStr ''1001'')) ''1001''" "carries (mk_case i (JStr ''1003'')) ''1003''"
  by (simp_all add: carries_def mk_case_def py_get_def mapping_defs text_defs)

lemma latin1_cases:
  "get_all_cases latin1_store ''A'' w =
     Some (Inr [mk_case 1 (JStr ''1001''), mk_case 2 (JStr (''1001'' @ [CHR 0xA0])), mk_case 5 (JStr ''1002'')],
           w\<lparr>requests := requests w @ [page_request ''https://api.qase.io/v1/case/A'' 1]\<rparr>)"
  unfolding get_all_cases_def paginate_def
  by (subst paginate_loop.simps) (simp add: latin1_store_def store_defs http_defs)

lemma latin1_mapping:
  "build_mapping latin1_store ''A'' w =
     Some (Inr [(''1001'', JInt 2), (''1002'', JInt 5)],
           w\<lparr>requests := requests w @ [page_request ''https://api.qase.io/v1/case/A'' 1]\<rparr>)"
  unfolding build_mapping_def latin1_cases
  by (simp add: mk_case_def py_get_def mapping_defs text_defs)

lemma latin1_get_case:
  "get_case latin1_store ''B'' (JInt 10) w =
     (Inr (mk_case 10 (JStr (CHR 0x85 # ''1001''))),
      w\<lparr>requests := requests w @ [GET ''https://api.qase.io/v1/case/B/10'' []]\<rparr>)"
  by (simp add: latin1_store_def store_defs http_defs text_defs)

lemma no_mapping_store_mapping:
  "build_mapping no_mapping_store ''A'' w =
     Some (Inr [], w\<lparr>requests := requests w @ [page_request ''https://api.qase.io/v1/case/A'' 1]\<rparr>)"
proof -
  have cases_a: "get_all_cases no_mapping_store ''A'' w =
      Some (Inr [JDict [(''id'', JInt 1), (''custom_fields'', JList [])]],
            w\<lparr>requests := requests w @ [page_request ''https://api.qase.io/v1/case/A'' 1]\<rparr>)"
    unfolding get_all_cases_def paginate_def
    by (subst paginate_loop.simps) (simp add: no_mapping_store_def store_defs http_defs)
  show ?thesis
    unfolding build_mapping_def cases_a
    by (simp add: py_get_def mapping_defs)
qed

section \<open>The identifier mapper\<close>

lemma build_mapping_loop_append:
  "build_mapping_loop (xs @ ys) m =
     (case build_mapping_loop xs m of Inl e \<Rightarrow> Inl e | Inr m' \<Rightarrow> build_mapping_loop ys m')"
  by (induction xs arbitrary: m) (auto split: json.splits sum.splits option.splits)

lemma build_mapping_loop_carries:
  assumes "carries c v" and "v \<noteq> []" and "py_getitem c ''id'' = Inr i"
  shows "build_mapping_loop (c # cs) m = build_mapping_loop cs (AList.update v i m)"
  using assms by (auto simp: carries_def split: json.splits)

lemma build_mapping_loop_keeps:
  assumes "build_mapping_loop cs m = Inr m'" and "\<forall>x\<in>set cs. \<not> carries x v"
  shows "map_of m' v = map_of m v"
  using assms
proof (induction cs arbitrary: m)
  case Nil
  then show ?case by simp
next
  case (Cons c cs)
  then show ?case
    by (auto simp: carries_def update_conv' split: json.splits sum.splits option.splits if_splits)
qed

lemma build_mapping_loop_total:
  assumes "\<forall>x\<in>set cs. \<not> isl (build_mapping_loop [x] [])"
  shows "\<exists>m'. build_mapping_loop cs m = Inr m'"
  using assms
proof (induction cs arbitrary: m)
  case Nil
  then show ?case by simp
next
  case (Cons c cs)
  then show ?case
    by (auto split: json.splits sum.splits option.splits if_splits)
qed

lemma build_mapping_world:
  assumes "build_mapping srv project w = Some (res, w1)"
  shows "\<exists>n. w1 = w\<lparr>requests := requests w @
            map (\<lambda>i. page_request (QASE_API_BASE @ ''/case/'' @ project) (1 + int i)) [0..<n]\<rparr>"
proof -
  from assms obtain cs where "paginate_loop srv (QASE_API_BASE @ ''/case/'' @ project) 1 [] w = Some (cs, w1)"
    by (auto simp: build_mapping_def get_all_cases_def paginate_def split: option.splits prod.splits sum.splits)
  from paginate_loop_world [OF this] show ?thesis by simp
qed

text \<open>
  Claim C5. When two or more of the fetched cases carry the same external mapping
  value, the table built by \<open>build_mapping\<close> associates that value with the internal
  identifier of the last of them in the fetched order. Here the cases fetched are
  \<open>pre @ c # post\<close>: \<open>c\<close> carries the value \<open>v\<close>, an earlier case \<open>c'\<close> carries it too, no
  case after \<open>c\<close> does, and handling any of the other cases raises no exception. Then
  \<open>build_mapping\<close> returns a table, and the table maps \<open>v\<close> to the identifier of \<open>c\<close>.
\<close>

theorem mapping_last_write_wins:
  assumes "get_all_cases srv project w = Some (Inr (pre @ c # post), w1)"
    and "\<forall>x\<in>set pre \<union> set post. \<not> isl (build_mapping_loop [x] [])"
    and "c' \<in> set pre" and "carries c' v"
    and "carries c v" and "v \<noteq> []" and "py_getitem c ''id'' = Inr i"
    and "\<forall>x\<in>set post. \<not> carries x v"
  shows "\<exists>mapping. build_mapping srv project w = Some (Inr mapping, w1) \<and> map_of mapping v = Some i"
proof -
  from assms(2) have "\<forall>x\<in>set pre. \<not> isl (build_mapping_loop [x] [])" by simp
  from build_mapping_loop_total [OF this] obtain m1 where pre: "build_mapping_loop pre [] = Inr m1" ..
  from assms(2) have "\<forall>x\<in>set post. \<not> isl (build_mapping_loop [x] [])" by simp
  from build_mapping_loop_total [OF this] obtain mapping where
    post: "build_mapping_loop post (AList.update v i m1) = Inr mapping" ..
  have "build_mapping_loop (pre @ c # post) [] = Inr mapping"
    by (simp only: build_mapping_loop_append pre sum.case build_mapping_loop_carries [OF assms(5-7)] post)
  then have "build_mapping srv project w = Some (Inr mapping, w1)"
    by (simp add: build_mapping_def assms(1))
  moreover from build_mapping_loop_keeps [OF post assms(8)] have "map_of mapping v = Some i"
    by (simp add: update_conv')
  ultimately show ?thesis by blast
qed

text \<open>
  On the store with text outside ASCII, the cases 1 and 2 both carry 1001 (the value of
  case 2 ends with a no-break space, which \<open>strip()\<close> removes), and the table holds the
  identifier 2.
\<close>

theorem mapping_last_write_wins_witness:
  "build_mapping latin1_store ''A'' w0 =
     Some (Inr [(''1001'', JInt 2), (''1002'', JInt 5)],
           \<lparr>requests = [page_request ''https://api.qase.io/v1/case/A'' 1], error_log = []\<rparr>) \<and>
   map_of [(''1001'', JInt 2), (''1002'', JInt 5)] ''1001'' = Some (JInt 2)"
proof -
  let ?c1 = "mk_case 1 (JStr ''1001'')" and ?c2 = "mk_case 2 (JStr (''1001'' @ [CHR 0xA0]))"
  let ?post = "[mk_case 5 (JStr ''1002'')]"
  let ?w1 = "w0\<lparr>requests := requests w0 @ [page_request ''https://api.qase.io/v1/case/A'' 1]\<rparr>"
  have fetched: "get_all_cases latin1_store ''A'' w0 = Some (Inr ([?c1] @ ?c2 # ?post), ?w1)"
    using latin1_cases [of w0] by simp
  have no_raise: "\<forall>x\<in>set [?c1] \<union> set ?post. \<not> isl (build_mapping_loop [x] [])"
    by (simp add: mk_case_def py_get_def mapping_defs text_defs)
  have earlier: "?c1 \<in> set [?c1]" by simp
  have c1: "carries ?c1 ''1001''"
    by (simp add: carries_def mk_case_def py_get_def mapping_defs text_defs)
  have c2: "carries ?c2 ''1001''"
    by (simp add: carries_def mk_case_def py_get_def mapping_defs text_defs)
  have nonempty: "''1001'' \<noteq> []" by simp
  have ident: "py_getitem ?c2 ''id'' = Inr (JInt 2)" by (simp add: mk_case_def)
  have later: "\<forall>x\<in>set ?post. \<not> carries x ''1001''"
    by (simp add: carries_def mk_case_def py_get_def mapping_defs text_defs)
  from mapping_last_write_wins [OF fetched no_raise earlier c1 c2 nonempty ident later]
  obtain mapping where built: "build_mapping latin1_store ''A'' w0 = Some (Inr mapping, ?w1)"
    and last: "map_of mapping ''1001'' = Some (JInt 2)" by blast
  from built have "mapping = [(''1001'', JInt 2), (''1002'', JInt 5)]"
    by (simp add: latin1_mapping)
  with built last show ?thesis by (simp add: w0_def)
qed


text \<open>
  Claim C6. A case takes part in the mapping table only if its mapping value is neither
  null nor empty. The code does not do this for a null value: \<open>str(None).strip()\<close> is
  the string \<open>None\<close>, which is not empty, so a case whose mapping field has the value
  null enters the table under the key \<open>None\<close>. The store has one such case, with the
  internal identifier 7.
\<close>

theorem null_value_in_mapping:
  "build_mapping null_value_store ''A'' w0 =
     Some (Inr [(''None'', JInt 7)],
           \<lparr>requests = [page_request ''https://api.qase.io/v1/case/A'' 1], error_log = []\<rparr>)"
proof -
  have cases_a: "get_all_cases null_value_store ''A'' w =
      Some (Inr [mk_case 7 JNull],
            w\<lparr>requests := requests w @ [page_request ''https://api.qase.io/v1/case/A'' 1]\<rparr>)" for w
    unfolding get_all_cases_def paginate_def
    by (subst paginate_loop.simps) (simp add: null_value_store_def store_defs http_defs)
  show ?thesis
    unfolding build_mapping_def cases_a
    by (simp add: w0_def mk_case_def py_get_def mapping_defs text_defs)
qed

section \<open>The migration engine\<close>

lemma get_case_world:
  "get_case srv project case_id w = (res, w') \<Longrightarrow>
     w' = w\<lparr>requests := requests w @ [GET (case_url project case_id) []]\<rparr>"
  by (auto simp: get_case_def case_url_def split: prod.splits sum.splits json.splits dest: api_get_world)

lemma post_result_world:
  "post_result srv project run_id payload w = (res, w') \<Longrightarrow>
     w' = w\<lparr>requests := requests w @ [POST (result_url project run_id) payload]\<rparr>"
  by (auto simp: post_result_def result_url_def dest: api_post_world)


lemma status_string_not_code: "JStr s \<noteq> convert_status v"
  by (cases v) (simp_all add: convert_status_def)

lemma eligible_step:
  assumes "get_case srv project_b (py_get r ''case_id'' JNull) w = (Inr (JDict c), w1)"
    and "c \<noteq> []" and "carries (JDict c) mv" and "mv \<noteq> []"
    and "map_of mapping_a mv = Some target"
  shows "copy_results_step srv mapping_a project_a run_a project_b run_b (JDict r) sm w =
     (if \<not> py_truthy target then (Inr (sm\<lparr>skipped := skipped sm + 1\<rparr>), w1)
      else (case post_result srv project_a run_a
                  (JDict [(''case_id'', target),
                          (''status'', JStr (lower (py_str (py_get r ''status'' JNull)))),
                          (''comment'', JStr (''Copied from '' @ project_b @ '' run '' @ str_int run_b))]) w1 of
              (Inr ok, w2) \<Rightarrow> (Inr (sm\<lparr>copied := copied sm + 1\<rparr>), w2)
            | (Inl e, w2) \<Rightarrow>
                (Inr (sm\<lparr>errors := errors sm + 1\<rparr>), w2\<lparr>error_log := error_log w2 @ [LogPostError e]\<rparr>)))"
  using assms by (simp add: copy_results_step_def carries_def Let_def)

lemma copy_results_step_total:
  assumes "copy_results_step srv mapping_a project_a run_a project_b run_b res sm w = (Inr sm', w')"
  shows "copied sm' + skipped sm' + errors sm' = copied sm + skipped sm + errors sm + 1"
  using assms
  by (auto simp: copy_results_step_def Let_def
      split: json.splits prod.splits sum.splits option.splits if_splits)

lemma copy_results_loop_total:
  assumes "copy_results_loop srv mapping_a project_a run_a project_b run_b rs sm w = (Inr sm', w')"
  shows "copied sm' + skipped sm' + errors sm' = copied sm + skipped sm + errors sm + int (length rs)"
  using assms
proof (induction rs arbitrary: sm w)
  case Nil
  then show ?case by simp
next
  case (Cons r rs)
  from Cons.prems obtain sm1 w1 where
    step: "copy_results_step srv mapping_a project_a run_a project_b run_b r sm w = (Inr sm1, w1)"
    and rest: "copy_results_loop srv mapping_a project_a run_a project_b run_b rs sm1 w1 = (Inr sm', w')"
    by (auto split: prod.splits sum.splits)
  from Cons.IH [OF rest] copy_results_step_total [OF step] show ?case by simp
qed

lemma copy_results_step_outcome:
  assumes "copy_results_step srv mapping_a project_a run_a project_b run_b res sm w = (Inr sm', w')"
  shows "\<exists>out. sm' = count_outcome sm out"
proof -
  from assms have "sm' = sm\<lparr>copied := copied sm + 1\<rparr> \<or> sm' = sm\<lparr>skipped := skipped sm + 1\<rparr> \<or>
      sm' = sm\<lparr>errors := errors sm + 1\<rparr>"
    by (auto simp: copy_results_step_def Let_def
        split: json.splits prod.splits sum.splits option.splits if_splits)
  then show ?thesis
    by (metis count_outcome.simps)
qed

lemma copy_results_loop_outcomes:
  assumes "copy_results_loop srv mapping_a project_a run_a project_b run_b rs sm w = (Inr sm', w')"
  shows "\<exists>outs. length outs = length rs \<and> sm' = foldl count_outcome sm outs"
  using assms
proof (induction rs arbitrary: sm w)
  case Nil
  then show ?case by simp
next
  case (Cons r rs)
  from Cons.prems obtain sm1 w1 where
    step: "copy_results_step srv mapping_a project_a run_a project_b run_b r sm w = (Inr sm1, w1)"
    and rest: "copy_results_loop srv mapping_a project_a run_a project_b run_b rs sm1 w1 = (Inr sm', w')"
    by (auto split: prod.splits sum.splits)
  from copy_results_step_outcome [OF step] obtain out where out: "sm1 = count_outcome sm out" ..
  from Cons.IH [OF rest] obtain outs where
    outs: "length outs = length rs" "sm' = foldl count_outcome sm1 outs" by blast
  from out outs have "length (out # outs) = length (r # rs) \<and> sm' = foldl count_outcome sm (out # outs)"
    by simp
  then show ?case by blast
qed

lemma filter_run_filter:
  "filter_run rs run_b = Inr keep \<Longrightarrow> keep = filter (has_run_id run_b) rs"
  by (induction rs arbitrary: keep) (auto simp: has_run_id_def split: json.splits sum.splits if_splits)

text \<open>
  Claim C1. A result whose case fetch fails with a non-success response is counted in
  \<open>errors\<close> and the batch goes on. The code does not do this: \<open>get_case\<close> is called
  outside any \<open>try\<close>, and \<open>api_get\<close> raises on a status other than 200, so the
  exception leaves the loop and \<open>copy_results\<close>. On the store below the first result of
  run 7 refers to a case for which the store answers 404: no summary is written, and the
  second result, which could be copied, is never processed.
\<close>

theorem case_fetch_failure_aborts:
  "copy_results missing_case_store ''A'' 3 ''B'' 7 w0 =
     Some (Inl (RuntimeError ''GET https://api.qase.io/v1/case/B/10 failed: 404 Not Found''),
           \<lparr>requests =
              [page_request ''https://api.qase.io/v1/case/A'' 1,
               page_request ''https://api.qase.io/v1/result/B'' 1,
               GET ''https://api.qase.io/v1/case/B/10'' []],
            error_log = []\<rparr>)"
proof -
  have cases_a: "get_all_cases missing_case_store ''A'' w =
      Some (Inr [mk_case 1 (JStr ''1001'')],
            w\<lparr>requests := requests w @ [page_request ''https://api.qase.io/v1/case/A'' 1]\<rparr>)" for w
    unfolding get_all_cases_def paginate_def
    by (subst paginate_loop.simps) (simp add: missing_case_store_def store_defs http_defs)
  have results_b: "get_all_results missing_case_store ''B'' w =
      Some (Inr [mk_result 7 10 ''passed'', mk_result 7 11 ''passed''],
            w\<lparr>requests := requests w @ [page_request ''https://api.qase.io/v1/result/B'' 1]\<rparr>)" for w
    unfolding get_all_results_def paginate_def
    by (subst paginate_loop.simps) (simp add: missing_case_store_def store_defs http_defs)
  show ?thesis
    unfolding copy_results_def build_mapping_def cases_a results_b
    by (simp add: w0_def copy_results_step_def missing_case_store_def
          store_defs http_defs text_defs mapping_defs)
qed

text \<open>
  Claim C2. When \<open>copy_results\<close> reaches the loop over the results (the table of
  project A is not empty, the results of project B are fetched and filtered) and the
  loop ends without an exception, \<open>copy_results\<close> writes the summary of the loop, the
  counters of the summary add up to the number of results of project B whose run
  identifier equals \<open>run_b\<close>, and the summary is the zeroed one after one increment of
  one counter for each of these results.
\<close>

theorem summary_counts_filtered_results:
  assumes "build_mapping srv project_a w = Some (Inr mapping_a, w1)" and "mapping_a \<noteq> []"
    and "get_all_results srv project_b w1 = Some (Inr all_results, w2)"
    and "filter_run all_results run_b = Inr results_b"
    and "copy_results_loop srv mapping_a project_a run_a project_b run_b results_b
           \<lparr>copied = 0, skipped = 0, errors = 0\<rparr> w2 = (Inr sm, w3)"
  shows "copy_results srv project_a run_a project_b run_b w = Some (Inr (Some sm), w3) \<and>
         copied sm + skipped sm + errors sm = int (length (filter (has_run_id run_b) all_results)) \<and>
         (\<exists>outs. length outs = length (filter (has_run_id run_b) all_results) \<and>
                 sm = foldl count_outcome \<lparr>copied = 0, skipped = 0, errors = 0\<rparr> outs)"
proof -
  have "copy_results srv project_a run_a project_b run_b w = Some (Inr (Some sm), w3)"
    by (simp add: copy_results_def assms)
  moreover from copy_results_loop_total [OF assms(5)] filter_run_filter [OF assms(4)]
  have "copied sm + skipped sm + errors sm = int (length (filter (has_run_id run_b) all_results))"
    by simp
  moreover from copy_results_loop_outcomes [OF assms(5)] filter_run_filter [OF assms(4)]
  have "\<exists>outs. length outs = length (filter (has_run_id run_b) all_results) \<and>
                 sm = foldl count_outcome \<lparr>copied = 0, skipped = 0, errors = 0\<rparr> outs"
    by simp
  ultimately show ?thesis by blast
qed

theorem summary_counts_filtered_results_witness:
  "copy_results demo_store ''A'' 3 ''B'' 7 w0 =
     Some (Inr (Some \<lparr>copied = 1, skipped = 2, errors = 2\<rparr>),
       \<lparr>requests =
          [page_request ''https://api.qase.io/v1/case/A'' 1,
           page_request ''https://api.qase.io/v1/result/B'' 1,
           GET ''https://api.qase.io/v1/case/B/10'' [],
           POST ''https://api.qase.io/v1/result/A/3''
             (JDict [(''case_id'', JInt 2), (''status'', JStr ''passed''), (''comment'', JStr ''Copied from B run 7'')]),
           GET ''https://api.qase.io/v1/case/B/11'' [],
           POST ''https://api.qase.io/v1/result/A/3''
             (JDict [(''case_id'', JInt 5), (''status'', JStr ''failed''), (''comment'', JStr ''Copied from B run 7'')]),
           GET ''https://api.qase.io/v1/case/B/12'' [],
           GET ''https://api.qase.io/v1/case/B/13'' [],
           GET ''https://api.qase.io/v1/case/B/14'' []],
        error_log =
          [LogPostError (RuntimeError ''POST https://api.qase.io/v1/result/A/3 failed: 500 Internal Server Error'')]\<rparr>) \<and>
   length (filter (has_run_id 7)
       [mk_result 7 10 ''Passed'', mk_result 7 11 ''FAILED'', mk_result 8 10 ''passed'',
        mk_result 7 12 ''passed'', mk_result 7 13 ''passed'', mk_result 7 14 ''blocked'']) = 5 \<and>
   (\<exists>outs. length outs = 5 \<and>
      \<lparr>copied = 1, skipped = 2, errors = 2\<rparr> = foldl count_outcome \<lparr>copied = 0, skipped = 0, errors = 0\<rparr> outs)"
proof -
  let ?m = "[(''1001'', JInt 2), (''1003'', JInt 0), (''1002'', JInt 5)]"
  let ?all = "[mk_result 7 10 ''Passed'', mk_result 7 11 ''FAILED'', mk_result 8 10 ''passed'',
        mk_result 7 12 ''passed'', mk_result 7 13 ''passed'', mk_result 7 14 ''blocked'']"
  let ?rb = "[mk_result 7 10 ''Passed'', mk_result 7 11 ''FAILED'',
        mk_result 7 12 ''passed'', mk_result 7 13 ''passed'', mk_result 7 14 ''blocked'']"
  let ?w1 = "w0\<lparr>requests := requests w0 @ [page_request ''https://api.qase.io/v1/case/A'' 1]\<rparr>"
  let ?w2 = "?w1\<lparr>requests := requests ?w1 @ [page_request ''https://api.qase.io/v1/result/B'' 1]\<rparr>"
  let ?w3 = "\<lparr>requests =
          [page_request ''https://api.qase.io/v1/case/A'' 1,
           page_request ''https://api.qase.io/v1/result/B'' 1,
           GET ''https://api.qase.io/v1/case/B/10'' [],
           POST ''https://api.qase.io/v1/result/A/3''
             (JDict [(''case_id'', JInt 2), (''status'', JStr ''passed''), (''comment'', JStr ''Copied from B run 7'')]),
           GET ''https://api.qase.io/v1/case/B/11'' [],
           POST ''https://api.qase.io/v1/result/A/3''
             (JDict [(''case_id'', JInt 5), (''status'', JStr ''failed''), (''comment'', JStr ''Copied from B run 7'')]),
           GET ''https://api.qase.io/v1/case/B/12'' [],
           GET ''https://api.qase.io/v1/case/B/13'' [],
           GET ''https://api.qase.io/v1/case/B/14'' []],
        error_log =
          [LogPostError (RuntimeError ''POST https://api.qase.io/v1/result/A/3 failed: 500 Internal Server Error'')]\<rparr>"
  have table: "build_mapping demo_store ''A'' w0 = Some (Inr ?m, ?w1)" by (rule demo_mapping)
  have nonempty: "?m \<noteq> []" by simp
  have fetched: "get_all_results demo_store ''B'' ?w1 = Some (Inr ?all, ?w2)" by (rule demo_results)
  have kept: "filter_run ?all 7 = Inr ?rb" by (simp add: mk_result_def py_get_def)
  have loop: "copy_results_loop demo_store ?m ''A'' 3 ''B'' 7 ?rb \<lparr>copied = 0, skipped = 0, errors = 0\<rparr> ?w2 =
      (Inr \<lparr>copied = 1, skipped = 2, errors = 2\<rparr>, ?w3)"
    by (simp add: w0_def copy_results_step_def demo_store_def store_defs http_defs text_defs mapping_defs)
  from summary_counts_filtered_results [OF table nonempty fetched kept loop]
  show ?thesis
    by (simp add: has_run_id_def mk_result_def py_get_def eval_nat_numeral)
qed

text \<open>
  Claim C7, as the code has it. When the mapping table built for project A is empty,
  \<open>copy_results\<close> reports \<open>No mapping_id found in Project A.\<close> and returns at once. It
  writes no summary at all (the counters do not exist yet at that point), and the only
  requests it has sent are the page requests for the cases of project A: no result is
  fetched and nothing is written.
\<close>

theorem empty_mapping_no_summary:
  assumes "build_mapping srv project_a w = Some (Inr [], w1)"
  shows "\<exists>n. copy_results srv project_a run_a project_b run_b w =
           Some (Inr None,
                 w\<lparr>requests := requests w @
                       map (\<lambda>i. page_request (QASE_API_BASE @ ''/case/'' @ project_a) (1 + int i)) [0..<n],
                   error_log := error_log w @ [LogError ''No mapping_id found in Project A.'']\<rparr>)"
proof -
  from build_mapping_world [OF assms] obtain n where
    "w1 = w\<lparr>requests := requests w @
            map (\<lambda>i. page_request (QASE_API_BASE @ ''/case/'' @ project_a) (1 + int i)) [0..<n]\<rparr>" ..
  then show ?thesis
    by (intro exI [of _ n]) (simp add: copy_results_def assms)
qed

theorem empty_mapping_no_summary_witness:
  "map_option (\<lambda>p. (fst p, error_log (snd p))) (copy_results no_mapping_store ''A'' 3 ''B'' 7 w0) =
     Some (Inr None, [LogError ''No mapping_id found in Project A.''])"
proof -
  from empty_mapping_no_summary [OF no_mapping_store_mapping, where w = w0 and run_a = 3 and project_b = "''B''" and run_b = 7]
  obtain n where "copy_results no_mapping_store ''A'' 3 ''B'' 7 w0 =
           Some (Inr None,
                 w0\<lparr>requests := requests w0 @
                       map (\<lambda>i. page_request (QASE_API_BASE @ ''/case/'' @ ''A'') (1 + int i)) [0..<n],
                   error_log := error_log w0 @ [LogError ''No mapping_id found in Project A.'']\<rparr>)" ..
  then show ?thesis by (simp add: w0_def)
qed

text \<open>
  The claim as stated asks for a zeroed summary. On a store whose project A has no
  mapping value, the function returns without a summary.
\<close>

theorem zeroed_summary_counterexample:
  "map_option fst (copy_results no_mapping_store ''A'' 3 ''B'' 7 w0) = Some (Inr None) \<and>
   map_option fst (copy_results no_mapping_store ''A'' 3 ''B'' 7 w0) \<noteq>
     Some (Inr (Some \<lparr>copied = 0, skipped = 0, errors = 0\<rparr>))"
  by (simp add: copy_results_def no_mapping_store_mapping)

text \<open>
  Claim C8. For a result that reaches the write step (its case is fetched, carries a
  mapping value that is not empty, and the table maps the value to a target that counts
  as true), the step sends, after the case fetch, exactly one POST to the result URL of
  project A and run \<open>run_a\<close>, whose body has the target case identifier, the lower-cased
  string of the original status, and the comment naming project B and \<open>run_b\<close>. The
  status sent is a string and never the value that \<open>convert_status\<close> returns.
\<close>

theorem posted_payload:
  assumes "get_case srv project_b (py_get r ''case_id'' JNull) w = (Inr (JDict c), w1)"
    and "c \<noteq> []" and "carries (JDict c) mv" and "mv \<noteq> []"
    and "map_of mapping_a mv = Some target" and "py_truthy target"
  shows "requests (snd (copy_results_step srv mapping_a project_a run_a project_b run_b (JDict r) sm w)) =
           requests w1 @
           [POST (result_url project_a run_a)
              (JDict [(''case_id'', target),
                      (''status'', JStr (lower (py_str (py_get r ''status'' JNull)))),
                      (''comment'', JStr (''Copied from '' @ project_b @ '' run '' @ str_int run_b))])] \<and>
         JStr (lower (py_str (py_get r ''status'' JNull))) \<noteq> convert_status (py_get r ''status'' JNull)"
proof -
  let ?payload = "JDict [(''case_id'', target),
                      (''status'', JStr (lower (py_str (py_get r ''status'' JNull)))),
                      (''comment'', JStr (''Copied from '' @ project_b @ '' run '' @ str_int run_b))]"
  obtain res w2 where p: "post_result srv project_a run_a ?payload w1 = (res, w2)"
    by (cases "post_result srv project_a run_a ?payload w1")
  from post_result_world [OF p] have w2: "requests w2 = requests w1 @ [POST (result_url project_a run_a) ?payload]"
    by simp
  show ?thesis
    unfolding eligible_step [OF assms(1-5)] using assms(6) p w2
    by (cases res) (simp_all add: status_string_not_code)
qed

text \<open>
  On the store with text outside ASCII the status of the result is \<open>ECHEC\<close> with a capital
  E with acute accent (code point 201); the status posted has the small letter (code
  point 233).
\<close>

theorem posted_payload_witness:
  "requests (snd (copy_results_step latin1_store [(''1001'', JInt 2), (''1002'', JInt 5)]
       ''A'' 3 ''B'' 7 (mk_result 7 10 (CHR 0xC9 # ''CHEC'')) \<lparr>copied = 0, skipped = 0, errors = 0\<rparr> w0)) =
     [GET ''https://api.qase.io/v1/case/B/10'' [],
      POST ''https://api.qase.io/v1/result/A/3''
        (JDict [(''case_id'', JInt 2), (''status'', JStr (CHR 0xE9 # ''chec'')),
                (''comment'', JStr ''Copied from B run 7'')])] \<and>
   JStr (CHR 0xE9 # ''chec'') \<noteq> convert_status (JStr (CHR 0xC9 # ''CHEC''))"
proof -
  let ?r = "[(''run_id'', JInt 7), (''case_id'', JInt 10), (''status'', JStr (CHR 0xC9 # ''CHEC''))]"
  let ?c = "[(''id'', JInt 10),
             (''custom_fields'', JList [JDict [(''id'', JInt 1), (''value'', JStr (CHR 0x85 # ''1001''))]])]"
  let ?m = "[(''1001'', JInt 2), (''1002'', JInt 5)]"
  have fetch: "get_case latin1_store ''B'' (py_get ?r ''case_id'' JNull) w0 =
      (Inr (JDict ?c), w0\<lparr>requests := requests w0 @ [GET ''https://api.qase.io/v1/case/B/10'' []]\<rparr>)"
    using latin1_get_case [of w0] by (simp add: py_get_def mk_case_def)
  have truthy: "?c \<noteq> []" by simp
  have carried: "carries (JDict ?c) ''1001''"
    by (simp add: carries_def py_get_def mapping_defs text_defs)
  have nonempty: "''1001'' \<noteq> []" by simp
  have target: "map_of ?m ''1001'' = Some (JInt 2)" by simp
  have target_truthy: "py_truthy (JInt 2)" by simp
  from posted_payload [OF fetch truthy carried nonempty target target_truthy,
      where project_a = "''A''" and run_a = 3 and run_b = 7 and sm = "\<lparr>copied = 0, skipped = 0, errors = 0\<rparr>"]
  show ?thesis
    by (simp add: mk_result_def py_get_def w0_def result_url_def QASE_API_BASE_def text_defs)
qed




text \<open>
  Claim C10. When the mapping table maps the value of the result's case to the internal
  identifier 0, the result is counted as skipped and no write is attempted: the only
  request of the step is the case fetch.
\<close>

theorem zero_target_skipped:
  assumes "get_case srv project_b (py_get r ''case_id'' JNull) w = (Inr (JDict c), w1)"
    and "c \<noteq> []" and "carries (JDict c) mv" and "mv \<noteq> []"
    and "map_of mapping_a mv = Some (JInt 0)"
  shows "copy_results_step srv mapping_a project_a run_a project_b run_b (JDict r) sm w =
           (Inr (sm\<lparr>skipped := skipped sm + 1\<rparr>), w1) \<and>
         requests w1 = requests w @ [GET (case_url project_b (py_get r ''case_id'' JNull)) []]"
  using get_case_world [OF assms(1)] by (simp add: eligible_step [OF assms])

theorem zero_target_skipped_witness:
  "copy_results_step demo_store [(''1001'', JInt 2), (''1003'', JInt 0), (''1002'', JInt 5)]
       ''A'' 3 ''B'' 7 (mk_result 7 12 ''passed'') \<lparr>copied = 0, skipped = 0, errors = 0\<rparr> w0 =
     (Inr \<lparr>copied = 0, skipped = 1, errors = 0\<rparr>,
      \<lparr>requests = [GET ''https://api.qase.io/v1/case/B/12'' []], error_log = []\<rparr>)"
proof -
  let ?r = "[(''run_id'', JInt 7), (''case_id'', JInt 12), (''status'', JStr ''passed'')]"
  let ?c = "[(''id'', JInt 12), (''custom_fields'', JList [JDict [(''id'', JInt 1), (''value'', JStr ''1003'')]])]"
  let ?m = "[(''1001'', JInt 2), (''1003'', JInt 0), (''1002'', JInt 5)]"
  have fetch: "get_case demo_store ''B'' (py_get ?r ''case_id'' JNull) w0 =
      (Inr (JDict ?c), w0\<lparr>requests := requests w0 @ [GET ''https://api.qase.io/v1/case/B/12'' []]\<rparr>)"
    using demo_get_case(2) [of w0] by (simp add: py_get_def mk_case_def)
  have truthy: "?c \<noteq> []" by simp
  have carried: "carries (JDict ?c) ''1003''" using demo_carries(2) [of 12] by (simp add: mk_case_def)
  have nonempty: "''1003'' \<noteq> []" by simp
  have target: "map_of ?m ''1003'' = Some (JInt 0)" by simp
  from zero_target_skipped [OF fetch truthy carried nonempty target,
      where project_a = "''A''" and run_a = 3 and run_b = 7 and sm = "\<lparr>copied = 0, skipped = 0, errors = 0\<rparr>"]
  show ?thesis
    by (simp add: mk_result_def w0_def)
qed

end
